theory Spec2Isabelle
  imports Main
begin

section \<open>Data model\<close>

text \<open>
  The embedding covers \<^verbatim>\<open>src/heap/main-allocator.h\<close> and
  \<^verbatim>\<open>src/heap/main-allocator-inl.h\<close>. Addresses (\<^verbatim>\<open>Address\<close>) and byte counts
  (\<^verbatim>\<open>int\<close>) are integers. The only arithmetic of the two files is the sum
  \<^verbatim>\<open>size_in_bytes + filler_size\<close> of two \<^verbatim>\<open>int\<close>, whose result is kept in 32 bits
  (see \<open>wrap_int\<close> below).
  A \<^verbatim>\<open>Tagged<HeapObject>\<close> is identified with its address
  (\<^verbatim>\<open>HeapObject::FromAddress\<close>, \<^verbatim>\<open>obj.address()\<close>).
\<close>

type_synonym Address = int

text \<open>
  Modelled from the spec: the type \<^verbatim>\<open>AllocationAlignment\<close> is declared outside the two
  files. The spec speaks of a requested alignment \<open>a\<close> of which the returned address is a
  multiple, so an alignment is its number of bytes; \<^verbatim>\<open>kTaggedAligned\<close> is a constant of the
  configuration.
\<close>

type_synonym AllocationAlignment = int

text \<open>
  \<^verbatim>\<open>AllocationOrigin\<close> is only passed through; the one enumerator the source names is
  \<^verbatim>\<open>kRuntime\<close>.
\<close>

datatype AllocationOrigin = kRuntime | OtherOrigin nat

text \<open>
  The C++ type \<^verbatim>\<open>int\<close> has 32 bits. A sum of two \<^verbatim>\<open>int\<close> that does not fit is
  undefined behaviour in C++; the compiled code keeps the low 32 bits of it, read as two's
  complement, and so does the model. \<open>fits_int\<close> says that a value is one of an
  \<^verbatim>\<open>int\<close>, and on such a value \<open>wrap_int\<close> changes nothing.
\<close>

definition fits_int :: "int \<Rightarrow> bool" where
  "fits_int x \<longleftrightarrow> - 2147483648 \<le> x \<and> x \<le> 2147483647"

definition wrap_int :: "int \<Rightarrow> int" where
  "wrap_int x = (x + 2147483648) mod 4294967296 - 2147483648"

text \<open>\<^verbatim>\<open>AllocationResult\<close>: \<^verbatim>\<open>Failure()\<close> or \<^verbatim>\<open>FromObject(obj)\<close>.\<close>

datatype AllocationResult = Failure | FromObject Address

fun IsFailure :: "AllocationResult \<Rightarrow> bool" where
  "IsFailure Failure = True"
| "IsFailure (FromObject obj) = False"

text \<open>
  Build constants and flags that the two files read but do not define:
  \<^verbatim>\<open>DEBUG\<close> (whether a \<^verbatim>\<open>DCHECK\<close> is compiled in),
  \<^verbatim>\<open>v8_flags.enable_third_party_heap\<close>, \<^verbatim>\<open>USE_ALLOCATION_ALIGNMENT_BOOL\<close>,
  \<^verbatim>\<open>kTaggedAligned\<close>, and the granularity to which
  \<^verbatim>\<open>ALIGN_TO_ALLOCATION_ALIGNMENT\<close> rounds.
\<close>

record Config =
  DEBUG_BOOL :: bool
  enable_third_party_heap :: bool
  USE_ALLOCATION_ALIGNMENT_BOOL :: bool
  kTaggedAligned :: AllocationAlignment
  kAllocationGranularity :: int

text \<open>
  Modelled from the spec: the macro \<^verbatim>\<open>ALIGN_TO_ALLOCATION_ALIGNMENT\<close> is not defined in the
  two files. The spec, section 4.4: it "rounds size up to the platform allocation
  granularity".
\<close>

definition ALIGN_TO_ALLOCATION_ALIGNMENT :: "Config \<Rightarrow> int \<Rightarrow> int" where
  "ALIGN_TO_ALLOCATION_ALIGNMENT cfg v =
     ((v + kAllocationGranularity cfg - 1) div kAllocationGranularity cfg)
       * kAllocationGranularity cfg"

subsection \<open>The linear allocation area\<close>

record LinearAllocationArea =
  area_start :: Address
  area_top :: Address
  area_limit :: Address

text \<open>
  Modelled from the spec: \<^verbatim>\<open>LinearAllocationArea::CanIncrementTop\<close> is declared in
  \<^verbatim>\<open>linear-allocation-area.h\<close>, which is not among the files. The spec, section 4.1:
  "true iff top + n \<le> limit. Pure predicate, no side effect."
\<close>

definition CanIncrementTop :: "LinearAllocationArea \<Rightarrow> int \<Rightarrow> bool" where
  "CanIncrementTop a bytes \<longleftrightarrow> area_top a + bytes \<le> area_limit a"

text \<open>
  Modelled from the spec: \<^verbatim>\<open>LinearAllocationArea::IncrementTop\<close> (same missing header).
  The spec, section 4.1: it "advances top by n and returns the pre-increment value as the
  new object's address".
\<close>

definition IncrementTop :: "LinearAllocationArea \<Rightarrow> int \<Rightarrow> Address \<times> LinearAllocationArea" where
  "IncrementTop a bytes = (area_top a, a\<lparr>area_top := area_top a + bytes\<rparr>)"

subsection \<open>Events\<close>

text \<open>
  What a function does besides changing the allocator is returned as a list of events, in
  program order: the calls it makes to the other allocation functions, to the diagnostic
  hook \<^verbatim>\<open>MSAN_ALLOCATED_UNINITIALIZED_MEMORY\<close> and to the collaborators, the
  operations on the mutex \<^verbatim>\<open>linear_area_lock_\<close>, and the atomic accesses with the
  memory order the source gives them.
\<close>

datatype memory_order = memory_order_relaxed | memory_order_acquire | memory_order_release

datatype event =
    Call_AllocateFastUnaligned int AllocationOrigin
  | Call_AllocateFastAligned int AllocationAlignment AllocationOrigin
  | Call_AllocateRawSlow int AllocationAlignment AllocationOrigin
  | Call_InvokeAllocationObservers Address int int int
  | Call_RefillOrCollect int
  | MsanAllocatedUninitializedMemory Address int
  | LockExclusive
  | UnlockExclusive
  | Load_original_top memory_order
  | Load_original_limit memory_order
  | Store_original_top Address memory_order
  | Store_original_limit Address memory_order

fun is_fast_call :: "event \<Rightarrow> bool" where
  "is_fast_call (Call_AllocateFastUnaligned n origin) = True"
| "is_fast_call (Call_AllocateFastAligned n a origin) = True"
| "is_fast_call e = False"

fun is_slow_call :: "event \<Rightarrow> bool" where
  "is_slow_call (Call_AllocateRawSlow n a origin) = True"
| "is_slow_call e = False"

fun is_refill_call :: "event \<Rightarrow> bool" where
  "is_refill_call (Call_RefillOrCollect n) = True"
| "is_refill_call e = False"

fun is_observer_call :: "event \<Rightarrow> bool" where
  "is_observer_call (Call_InvokeAllocationObservers obj n m k) = True"
| "is_observer_call e = False"

text \<open>A failed \<^verbatim>\<open>DCHECK\<close> ends the process.\<close>

datatype fatal = DCHECK_failed

subsection \<open>The published bounds\<close>

text \<open>\<^verbatim>\<open>LinearAreaOriginalData\<close>, main-allocator.h lines 21 to 48.\<close>

record LinearAreaOriginalData =
  original_top :: Address
  original_limit :: Address

definition get_original_top_acquire :: "LinearAreaOriginalData \<Rightarrow> Address \<times> event" where
  "get_original_top_acquire d = (original_top d, Load_original_top memory_order_acquire)"

definition get_original_limit_relaxed :: "LinearAreaOriginalData \<Rightarrow> Address \<times> event" where
  "get_original_limit_relaxed d = (original_limit d, Load_original_limit memory_order_relaxed)"

definition set_original_top_release ::
  "LinearAreaOriginalData \<Rightarrow> Address \<Rightarrow> LinearAreaOriginalData \<times> event" where
  "set_original_top_release d t =
     (d\<lparr>original_top := t\<rparr>, Store_original_top t memory_order_release)"

definition set_original_limit_relaxed ::
  "LinearAreaOriginalData \<Rightarrow> Address \<Rightarrow> LinearAreaOriginalData \<times> event" where
  "set_original_limit_relaxed d l =
     (d\<lparr>original_limit := l\<rparr>, Store_original_limit l memory_order_relaxed)"

subsection \<open>The heap collaborator\<close>

text \<open>
  Of the heap, the allocator's fast path touches only the filler objects it asks for. A
  filler object is the pair of its address and its size in bytes.
\<close>

record Heap =
  filler_objects :: "(Address \<times> int) list"

text \<open>
  Modelled from the spec: \<^verbatim>\<open>Heap::GetFillToAlign\<close> is not among the files. The spec,
  section 4.4: "filler = bytes needed to align current top up to alignment".
\<close>

definition GetFillToAlign :: "Address \<Rightarrow> AllocationAlignment \<Rightarrow> int" where
  "GetFillToAlign address alignment = (- address) mod alignment"

text \<open>
  Modelled from the spec: \<^verbatim>\<open>Heap::PrecedeWithFiller\<close> is not among the files. The spec,
  sections 4.4 and 6: it "wraps an object with a preceding filler", a
  \<^verbatim>\<open>FillerObject\<close> "covering the filler bytes immediately preceding the returned object",
  the object being "placed after the filler".
\<close>

definition PrecedeWithFiller :: "Heap \<Rightarrow> Address \<Rightarrow> int \<Rightarrow> Address \<times> Heap" where
  "PrecedeWithFiller h object filler_size =
     (object + filler_size, h\<lparr>filler_objects := (object, filler_size) # filler_objects h\<rparr>)"

subsection \<open>The allocator\<close>

text \<open>
  \<^verbatim>\<open>MainAllocator\<close> holds a pointer to the heap and references to the allocation area and
  to the published bounds; the model holds their values. The fields \<^verbatim>\<open>space_\<close> and
  \<^verbatim>\<open>allocation_counter_\<close> are used by no function that has a body in the two files.
\<close>

record MainAllocator =
  heap :: Heap
  allocation_info :: LinearAllocationArea
  linear_area_original_data :: LinearAreaOriginalData

definition start :: "MainAllocator \<Rightarrow> Address" where
  "start s = area_start (allocation_info s)"

definition top_of :: "MainAllocator \<Rightarrow> Address" where
  "top_of s = area_top (allocation_info s)"

definition limit :: "MainAllocator \<Rightarrow> Address" where
  "limit s = area_limit (allocation_info s)"

definition original_top_acquire :: "MainAllocator \<Rightarrow> Address \<times> event" where
  "original_top_acquire s = get_original_top_acquire (linear_area_original_data s)"

definition original_limit_relaxed :: "MainAllocator \<Rightarrow> Address \<times> event" where
  "original_limit_relaxed s = get_original_limit_relaxed (linear_area_original_data s)"

type_synonym 'a outcome = "'a \<times> MainAllocator \<times> event list"

text \<open>
  \<^verbatim>\<open>MainAllocator::MoveOriginalTopForward\<close>, main-allocator.h lines 84 to 89. The guard
  takes the mutex on entry and gives it back on return; a \<^verbatim>\<open>DCHECK\<close> is evaluated in a
  debug build only, and its failure ends the process with the mutex held.
\<close>

definition MoveOriginalTopForward :: "Config \<Rightarrow> MainAllocator \<Rightarrow> (fatal + MainAllocator) \<times> event list" where
  "MoveOriginalTopForward cfg s =
     (let d = linear_area_original_data s;
          (original_top', load_top) = get_original_top_acquire d;
          (original_limit', load_limit) = get_original_limit_relaxed d;
          (d', store_top) = set_original_top_release d (top_of s) in
      if DEBUG_BOOL cfg \<and> \<not> top_of s \<ge> original_top'
      then (Inl DCHECK_failed, [LockExclusive, load_top])
      else if DEBUG_BOOL cfg \<and> \<not> top_of s \<le> original_limit'
      then (Inl DCHECK_failed, [LockExclusive, load_top, load_limit])
      else (Inr (s\<lparr>linear_area_original_data := d'\<rparr>),
            [LockExclusive] @ (if DEBUG_BOOL cfg then [load_top, load_limit] else [])
              @ [store_top, UnlockExclusive]))"

text \<open>\<^verbatim>\<open>MainAllocator::AllocateFastUnaligned\<close>, main-allocator-inl.h lines 33 to 45.\<close>

definition AllocateFastUnaligned ::
  "Config \<Rightarrow> int \<Rightarrow> AllocationOrigin \<Rightarrow> MainAllocator \<Rightarrow> AllocationResult outcome" where
  "AllocateFastUnaligned cfg size_in_bytes origin s =
     (let size_in_bytes = ALIGN_TO_ALLOCATION_ALIGNMENT cfg size_in_bytes in
      if \<not> CanIncrementTop (allocation_info s) size_in_bytes then (Failure, s, [])
      else
        let (obj, info) = IncrementTop (allocation_info s) size_in_bytes in
        (FromObject obj, s\<lparr>allocation_info := info\<rparr>,
         [MsanAllocatedUninitializedMemory obj size_in_bytes]))"

text \<open>
  \<^verbatim>\<open>MainAllocator::AllocateFastAligned\<close>, main-allocator-inl.h lines 47 to 69. The
  out-parameter \<^verbatim>\<open>int* result_aligned_size_in_bytes\<close> is \<open>None\<close> for
  \<^verbatim>\<open>nullptr\<close> and \<open>Some v\<close> for a pointer to a cell that holds \<open>v\<close>; the cell
  after the call is returned with the result. The sum of line 52 is an \<^verbatim>\<open>int\<close>.
\<close>

definition AllocateFastAligned ::
  "Config \<Rightarrow> int \<Rightarrow> int option \<Rightarrow> AllocationAlignment \<Rightarrow> AllocationOrigin \<Rightarrow> MainAllocator
     \<Rightarrow> (AllocationResult \<times> int option) outcome" where
  "AllocateFastAligned cfg size_in_bytes result_aligned_size_in_bytes alignment origin s =
     (let top' = area_top (allocation_info s);
          filler_size = GetFillToAlign top' alignment;
          aligned_size_in_bytes = wrap_int (size_in_bytes + filler_size) in
      if \<not> CanIncrementTop (allocation_info s) aligned_size_in_bytes
      then ((Failure, result_aligned_size_in_bytes), s, [])
      else
        let (obj, info) = IncrementTop (allocation_info s) aligned_size_in_bytes;
            out = (case result_aligned_size_in_bytes of
                     None \<Rightarrow> None
                   | Some v \<Rightarrow> Some aligned_size_in_bytes);
            (obj, h) = (if filler_size > 0 then PrecedeWithFiller (heap s) obj filler_size
                        else (obj, heap s)) in
        ((FromObject obj, out), s\<lparr>heap := h, allocation_info := info\<rparr>,
         [MsanAllocatedUninitializedMemory obj size_in_bytes]))"

text \<open>
  \<^verbatim>\<open>MainAllocator::AllocateRaw\<close>, main-allocator-inl.h lines 15 to 31. The body of
  \<^verbatim>\<open>AllocateRawSlow\<close> is not in the two files: it is the parameter \<open>slow\<close>, any
  function of the size, the alignment, the origin and the allocator.
\<close>

definition AllocateRaw ::
  "Config \<Rightarrow> (int \<Rightarrow> AllocationAlignment \<Rightarrow> AllocationOrigin \<Rightarrow> MainAllocator \<Rightarrow> AllocationResult outcome)
     \<Rightarrow> int \<Rightarrow> AllocationAlignment \<Rightarrow> AllocationOrigin \<Rightarrow> MainAllocator
     \<Rightarrow> fatal + AllocationResult outcome" where
  "AllocateRaw cfg slow size_in_bytes alignment origin s =
     (if DEBUG_BOOL cfg \<and> \<not> (\<not> enable_third_party_heap cfg) then Inl DCHECK_failed
      else
        let size_in_bytes = ALIGN_TO_ALLOCATION_ALIGNMENT cfg size_in_bytes;
            (result, s1, ev1) =
              (if USE_ALLOCATION_ALIGNMENT_BOOL cfg \<and> alignment \<noteq> kTaggedAligned cfg
               then
                 let ((r, out), s', ev) =
                       AllocateFastAligned cfg size_in_bytes None alignment origin s in
                 (r, s', Call_AllocateFastAligned size_in_bytes alignment origin # ev)
               else
                 let (r, s', ev) = AllocateFastUnaligned cfg size_in_bytes origin s in
                 (r, s', Call_AllocateFastUnaligned size_in_bytes origin # ev)) in
        if IsFailure result
        then
          let (r2, s2, ev2) = slow size_in_bytes alignment origin s1 in
          Inr (r2, s2, ev1 @ Call_AllocateRawSlow size_in_bytes alignment origin # ev2)
        else Inr (result, s1, ev1))"

subsection \<open>The slow path\<close>

text \<open>
  Modelled from the spec: \<^verbatim>\<open>MainAllocator::AllocateRawSlow\<close> is declared in
  main-allocator.h (lines 152 to 155) and its body is not among the files. The spec,
  section 4.4: it "delegates to the external space/heap collaborator to either refill the
  region (acquire a new backing page) or trigger garbage collection, then retries the fast
  path exactly once against the refreshed region. If still failing, this is a fatal
  out-of-memory condition surfaced to the caller as an allocation failure (never silently
  retried in a loop)." And section 4.3, of the observers: "Must be called exactly once per
  successful allocation (fast or slow path), after the region bounds have already been
  advanced". The collaborator is the parameter \<open>RefillOrCollect\<close>; the fast path that
  is retried is the one \<^verbatim>\<open>AllocateRaw\<close> chooses.
\<close>

definition AllocateRawSlow ::
  "Config \<Rightarrow> (int \<Rightarrow> MainAllocator \<Rightarrow> MainAllocator)
     \<Rightarrow> int \<Rightarrow> AllocationAlignment \<Rightarrow> AllocationOrigin \<Rightarrow> MainAllocator
     \<Rightarrow> AllocationResult outcome" where
  "AllocateRawSlow cfg RefillOrCollect size_in_bytes alignment origin s =
     (let s1 = RefillOrCollect size_in_bytes s;
          (result, aligned_size_in_bytes, s2, ev) =
            (if USE_ALLOCATION_ALIGNMENT_BOOL cfg \<and> alignment \<noteq> kTaggedAligned cfg
             then
               let ((r, out), s', ev) =
                     AllocateFastAligned cfg size_in_bytes (Some 0) alignment origin s1 in
               (r, (case out of None \<Rightarrow> size_in_bytes | Some v \<Rightarrow> v), s',
                Call_AllocateFastAligned size_in_bytes alignment origin # ev)
             else
               let (r, s', ev) = AllocateFastUnaligned cfg size_in_bytes origin s1 in
               (r, size_in_bytes, s', Call_AllocateFastUnaligned size_in_bytes origin # ev)) in
      case result of
        Failure \<Rightarrow> (Failure, s2, Call_RefillOrCollect size_in_bytes # ev)
      | FromObject obj \<Rightarrow>
          (FromObject obj, s2,
           Call_RefillOrCollect size_in_bytes # ev
             @ [Call_InvokeAllocationObservers obj size_in_bytes aligned_size_in_bytes
                  aligned_size_in_bytes]))"

subsection \<open>Sequences of fast-path allocations\<close>

text \<open>
  A caller that issues requests one after the other to the two fast paths, each on the
  allocator the previous one left. Of every request that succeeds it records the address
  returned, the size of the object (the rounded size for the unaligned path) and the
  aligned size (the size plus the filler, which the aligned path writes through
  \<^verbatim>\<open>result_aligned_size_in_bytes\<close>). A request that fails records nothing.
\<close>

datatype request =
    RequestUnaligned int AllocationOrigin
  | RequestAligned int AllocationAlignment AllocationOrigin

record allocation =
  object_address :: Address
  object_size :: int
  aligned_size :: int

fun FastAllocations :: "Config \<Rightarrow> request list \<Rightarrow> MainAllocator \<Rightarrow> allocation list" where
  "FastAllocations cfg [] s = []"
| "FastAllocations cfg (RequestUnaligned n origin # reqs) s =
     (case AllocateFastUnaligned cfg n origin s of
        (Failure, s', ev) \<Rightarrow> FastAllocations cfg reqs s'
      | (FromObject obj, s', ev) \<Rightarrow>
          \<lparr>object_address = obj,
           object_size = ALIGN_TO_ALLOCATION_ALIGNMENT cfg n,
           aligned_size = ALIGN_TO_ALLOCATION_ALIGNMENT cfg n\<rparr>
            # FastAllocations cfg reqs s')"
| "FastAllocations cfg (RequestAligned n a origin # reqs) s =
     (case AllocateFastAligned cfg n (Some 0) a origin s of
        ((Failure, out), s', ev) \<Rightarrow> FastAllocations cfg reqs s'
      | ((FromObject obj, out), s', ev) \<Rightarrow>
          \<lparr>object_address = obj,
           object_size = n,
           aligned_size = (case out of None \<Rightarrow> n | Some v \<Rightarrow> v)\<rparr>
            # FastAllocations cfg reqs s')"

text \<open>
  The requests the ordering theorem is about: a positive size, a positive alignment, and a
  size that leaves room in an \<^verbatim>\<open>int\<close> for the largest filler, \<open>alignment - 1\<close>.
\<close>

fun valid_request :: "request \<Rightarrow> bool" where
  "valid_request (RequestUnaligned n origin) \<longleftrightarrow> 0 < n"
| "valid_request (RequestAligned n a origin) \<longleftrightarrow> 0 < n \<and> 0 < a \<and> n + a - 1 \<le> 2147483647"

definition filler_of :: "allocation \<Rightarrow> int" where
  "filler_of a = aligned_size a - object_size a"

text \<open>The order between an allocation and the next, with the aligned size of the first.\<close>

definition aligned_size_order :: "allocation \<Rightarrow> allocation \<Rightarrow> bool" where
  "aligned_size_order a b \<longleftrightarrow>
     object_address a < object_address b
     \<and> object_address a + aligned_size a \<le> object_address b"

text \<open>
  The order between an allocation and the next, with the size of the first object alone:
  the first object ends no later than the filler of the second begins.
\<close>

definition object_size_order :: "allocation \<Rightarrow> allocation \<Rightarrow> bool" where
  "object_size_order a b \<longleftrightarrow>
     object_address a < object_address b
     \<and> object_address a + object_size a \<le> object_address b - filler_of b
     \<and> object_address a + object_size a \<le> object_address b"

subsection \<open>Example values\<close>

text \<open>
  A configuration, the allocator of a fresh region with base \<open>b\<close>, top \<open>t\<close> and limit
  \<open>l\<close>, and two collaborators for the slow path: one that leaves the region as it is and
  one that installs a fresh page. The theorems below are instantiated on them.
\<close>

definition example_config :: Config where
  "example_config = \<lparr>DEBUG_BOOL = True, enable_third_party_heap = False,
     USE_ALLOCATION_ALIGNMENT_BOOL = True, kTaggedAligned = 8, kAllocationGranularity = 8\<rparr>"

definition example_allocator :: "Address \<Rightarrow> Address \<Rightarrow> Address \<Rightarrow> MainAllocator" where
  "example_allocator b t l =
     \<lparr>heap = \<lparr>filler_objects = []\<rparr>,
      allocation_info = \<lparr>area_start = b, area_top = t, area_limit = l\<rparr>,
      linear_area_original_data = \<lparr>original_top = b, original_limit = l\<rparr>\<rparr>"

definition no_refill :: "int \<Rightarrow> MainAllocator \<Rightarrow> MainAllocator" where
  "no_refill n s = s"

definition fresh_page :: "int \<Rightarrow> MainAllocator \<Rightarrow> MainAllocator" where
  "fresh_page n s =
     s\<lparr>allocation_info := \<lparr>area_start = 4096, area_top = 4096, area_limit = 8192\<rparr>,
       linear_area_original_data := \<lparr>original_top = 4096, original_limit = 8192\<rparr>\<rparr>"

section \<open>Auxiliary facts\<close>

subsection \<open>Alignment and rounding\<close>

lemma wrap_int_fits: "fits_int x \<Longrightarrow> wrap_int x = x"
  by (simp add: fits_int_def wrap_int_def)

lemma fits_int_request:
  assumes "0 < n" and "0 < a" and "n + a - 1 \<le> 2147483647" and "0 \<le> f" and "f < a"
  shows "fits_int (n + f)"
  using assms by (simp add: fits_int_def)

lemma GetFillToAlign_range:
  "0 < alignment \<Longrightarrow> 0 \<le> GetFillToAlign address alignment \<and> GetFillToAlign address alignment < alignment"
  by (simp add: GetFillToAlign_def)



lemma ALIGN_TO_ALLOCATION_ALIGNMENT_rounds_up:
  assumes "0 < kAllocationGranularity cfg"
  shows "kAllocationGranularity cfg dvd ALIGN_TO_ALLOCATION_ALIGNMENT cfg v
       \<and> v \<le> ALIGN_TO_ALLOCATION_ALIGNMENT cfg v
       \<and> ALIGN_TO_ALLOCATION_ALIGNMENT cfg v < v + kAllocationGranularity cfg"
proof -
  let ?g = "kAllocationGranularity cfg"
  let ?w = "v + ?g - 1"
  have eq: "?w div ?g * ?g = ?w - ?w mod ?g"
    by (simp add: minus_mod_eq_div_mult)
  have lo: "0 \<le> ?w mod ?g" and hi: "?w mod ?g < ?g"
    using assms by simp_all
  have hi': "?w mod ?g \<le> ?g - 1" using hi by simp
  show ?thesis
    unfolding ALIGN_TO_ALLOCATION_ALIGNMENT_def eq using lo hi' by (simp add: dvd_def[symmetric] minus_mod_eq_div_mult[symmetric])
qed

subsection \<open>The fast paths by cases\<close>

lemma AllocateFastUnaligned_cases:
  "AllocateFastUnaligned cfg n origin s
     = (if CanIncrementTop (allocation_info s) (ALIGN_TO_ALLOCATION_ALIGNMENT cfg n)
        then (FromObject (top_of s),
              s\<lparr>allocation_info := (allocation_info s)
                   \<lparr>area_top := top_of s + ALIGN_TO_ALLOCATION_ALIGNMENT cfg n\<rparr>\<rparr>,
              [MsanAllocatedUninitializedMemory (top_of s) (ALIGN_TO_ALLOCATION_ALIGNMENT cfg n)])
        else (Failure, s, []))"
  by (simp add: AllocateFastUnaligned_def IncrementTop_def top_of_def Let_def)

lemma AllocateFastAligned_cases:
  "AllocateFastAligned cfg n out a origin s
     = (if CanIncrementTop (allocation_info s) (wrap_int (n + GetFillToAlign (top_of s) a))
        then ((FromObject (if 0 < GetFillToAlign (top_of s) a
                           then top_of s + GetFillToAlign (top_of s) a else top_of s),
               (case out of None \<Rightarrow> None
                | Some v \<Rightarrow> Some (wrap_int (n + GetFillToAlign (top_of s) a)))),
              s\<lparr>heap := (if 0 < GetFillToAlign (top_of s) a
                         then (heap s)\<lparr>filler_objects :=
                                (top_of s, GetFillToAlign (top_of s) a) # filler_objects (heap s)\<rparr>
                         else heap s),
                allocation_info := (allocation_info s)
                   \<lparr>area_top := top_of s + wrap_int (n + GetFillToAlign (top_of s) a)\<rparr>\<rparr>,
              [MsanAllocatedUninitializedMemory
                 (if 0 < GetFillToAlign (top_of s) a
                  then top_of s + GetFillToAlign (top_of s) a else top_of s) n])
        else ((Failure, out), s, []))"
  by (simp add: AllocateFastAligned_def IncrementTop_def PrecedeWithFiller_def top_of_def Let_def
      split: option.splits)

lemma fast_unaligned_no_calls:
  "\<not> list_ex is_slow_call (snd (snd (AllocateFastUnaligned cfg n origin s)))
   \<and> \<not> list_ex is_fast_call (snd (snd (AllocateFastUnaligned cfg n origin s)))
   \<and> \<not> list_ex is_observer_call (snd (snd (AllocateFastUnaligned cfg n origin s)))"
  by (simp add: AllocateFastUnaligned_def Let_def split: prod.splits)

lemma fast_aligned_no_calls:
  "\<not> list_ex is_slow_call (snd (snd (AllocateFastAligned cfg n out a origin s)))
   \<and> \<not> list_ex is_fast_call (snd (snd (AllocateFastAligned cfg n out a origin s)))
   \<and> \<not> list_ex is_observer_call (snd (snd (AllocateFastAligned cfg n out a origin s)))"
  by (simp add: AllocateFastAligned_def Let_def split: prod.splits)

subsection \<open>Sequences of requests\<close>

text \<open>What one request does to the allocator and what it records.\<close>

lemma FastAllocations_unaligned_step:
  "FastAllocations cfg (RequestUnaligned n origin # reqs) s
     = (if CanIncrementTop (allocation_info s) (ALIGN_TO_ALLOCATION_ALIGNMENT cfg n)
        then \<lparr>object_address = top_of s,
              object_size = ALIGN_TO_ALLOCATION_ALIGNMENT cfg n,
              aligned_size = ALIGN_TO_ALLOCATION_ALIGNMENT cfg n\<rparr>
             # FastAllocations cfg reqs
                 (s\<lparr>allocation_info := (allocation_info s)
                      \<lparr>area_top := top_of s + ALIGN_TO_ALLOCATION_ALIGNMENT cfg n\<rparr>\<rparr>)
        else FastAllocations cfg reqs s)"
  by (simp add: AllocateFastUnaligned_cases)

lemma FastAllocations_aligned_step:
  assumes "fits_int (n + GetFillToAlign (top_of s) a)"
  shows "FastAllocations cfg (RequestAligned n a origin # reqs) s
     = (if CanIncrementTop (allocation_info s) (n + GetFillToAlign (top_of s) a)
        then \<lparr>object_address = (if 0 < GetFillToAlign (top_of s) a
                                then top_of s + GetFillToAlign (top_of s) a else top_of s),
              object_size = n,
              aligned_size = n + GetFillToAlign (top_of s) a\<rparr>
             # FastAllocations cfg reqs
                 (s\<lparr>heap := (if 0 < GetFillToAlign (top_of s) a
                         then (heap s)\<lparr>filler_objects :=
                                (top_of s, GetFillToAlign (top_of s) a) # filler_objects (heap s)\<rparr>
                         else heap s),
                    allocation_info := (allocation_info s)
                      \<lparr>area_top := top_of s + (n + GetFillToAlign (top_of s) a)\<rparr>\<rparr>)
        else FastAllocations cfg reqs s)"
  by (simp add: AllocateFastAligned_cases wrap_int_fits [OF assms])

lemma FastAllocations_above_top:
  assumes "0 < kAllocationGranularity cfg" and "list_all valid_request reqs"
    and "a \<in> set (FastAllocations cfg reqs s)"
  shows "top_of s \<le> object_address a - filler_of a \<and> 0 \<le> filler_of a \<and> 0 < object_size a"
  using assms(2,3)
proof (induction reqs arbitrary: s)
  case Nil
  then show ?case by simp
next
  case (Cons r reqs)
  show ?case
  proof (cases r)
    case (RequestUnaligned n origin)
    with Cons.prems have n: "0 < n" and rest: "list_all valid_request reqs" by simp_all
    have up: "n \<le> ALIGN_TO_ALLOCATION_ALIGNMENT cfg n"
      using ALIGN_TO_ALLOCATION_ALIGNMENT_rounds_up [OF assms(1)] by blast
    show ?thesis
    proof (cases "CanIncrementTop (allocation_info s) (ALIGN_TO_ALLOCATION_ALIGNMENT cfg n)")
      case True
      with Cons.prems(2) RequestUnaligned
      consider "a = \<lparr>object_address = top_of s,
              object_size = ALIGN_TO_ALLOCATION_ALIGNMENT cfg n,
              aligned_size = ALIGN_TO_ALLOCATION_ALIGNMENT cfg n\<rparr>"
        | "a \<in> set (FastAllocations cfg reqs
                 (s\<lparr>allocation_info := (allocation_info s)
                      \<lparr>area_top := top_of s + ALIGN_TO_ALLOCATION_ALIGNMENT cfg n\<rparr>\<rparr>))"
        by (auto simp: FastAllocations_unaligned_step simp del: FastAllocations.simps)
      then show ?thesis
      proof cases
        case 1
        then show ?thesis using n up by (simp add: filler_of_def)
      next
        case 2
        from Cons.IH [OF rest 2] n up show ?thesis by (simp add: top_of_def)
      qed
    next
      case False
      with Cons.prems(2) RequestUnaligned
      have "a \<in> set (FastAllocations cfg reqs s)"
        by (simp add: FastAllocations_unaligned_step del: FastAllocations.simps)
      from Cons.IH [OF rest this] show ?thesis .
    qed
  next
    case (RequestAligned n al origin)
    with Cons.prems have n: "0 < n" and al: "0 < al" and room: "n + al - 1 \<le> 2147483647"
      and rest: "list_all valid_request reqs"
      by simp_all
    let ?f = "GetFillToAlign (top_of s) al"
    have f: "0 \<le> ?f" and f': "?f < al" using GetFillToAlign_range [OF al] by blast+
    have fits: "fits_int (n + ?f)" using n al room f f' by (rule fits_int_request)
    note step = FastAllocations_aligned_step [OF fits]
    show ?thesis
    proof (cases "CanIncrementTop (allocation_info s) (n + ?f)")
      case True
      with Cons.prems(2) RequestAligned
      consider "a = \<lparr>object_address = (if 0 < ?f then top_of s + ?f else top_of s),
              object_size = n, aligned_size = n + ?f\<rparr>"
        | "a \<in> set (FastAllocations cfg reqs
                 (s\<lparr>heap := (if 0 < ?f
                         then (heap s)\<lparr>filler_objects := (top_of s, ?f) # filler_objects (heap s)\<rparr>
                         else heap s),
                    allocation_info := (allocation_info s)
                      \<lparr>area_top := top_of s + (n + ?f)\<rparr>\<rparr>))"
        by (auto simp: step simp del: FastAllocations.simps)
      then show ?thesis
      proof cases
        case 1
        then show ?thesis using n f by (auto simp: filler_of_def)
      next
        case 2
        from Cons.IH [OF rest 2] n f show ?thesis by (simp add: top_of_def)
      qed
    next
      case False
      with Cons.prems(2) RequestAligned
      have "a \<in> set (FastAllocations cfg reqs s)"
        by (simp add: step del: FastAllocations.simps)
      from Cons.IH [OF rest this] show ?thesis .
    qed
  qed
qed

lemma successively_ConsI:
  "(\<And>y. y \<in> set xs \<Longrightarrow> P x y) \<Longrightarrow> successively P xs \<Longrightarrow> successively P (x # xs)"
  by (cases xs) simp_all

subsection \<open>The example runs\<close>

lemmas example_defs =
  example_config_def example_allocator_def no_refill_def fresh_page_def
  AllocateRaw_def AllocateRawSlow_def AllocateFastAligned_def AllocateFastUnaligned_def
  CanIncrementTop_def IncrementTop_def GetFillToAlign_def PrecedeWithFiller_def
  ALIGN_TO_ALLOCATION_ALIGNMENT_def wrap_int_def Let_def

lemma example_fast_success:
  "AllocateRaw example_config (AllocateRawSlow example_config fresh_page) 20 8 kRuntime
     (example_allocator 0 0 1000)
   = Inr (FromObject 0, example_allocator 0 24 1000,
          [Call_AllocateFastUnaligned 24 kRuntime, MsanAllocatedUninitializedMemory 0 24])"
  by (simp add: example_defs)

lemma example_slow_success:
  "AllocateRaw example_config (AllocateRawSlow example_config fresh_page) 1000 8 kRuntime
     (example_allocator 0 112 1000)
   = Inr (FromObject 4096, example_allocator 4096 5096 8192,
          [Call_AllocateFastUnaligned 1000 kRuntime, Call_AllocateRawSlow 1000 8 kRuntime,
           Call_RefillOrCollect 1000, Call_AllocateFastUnaligned 1000 kRuntime,
           MsanAllocatedUninitializedMemory 4096 1000,
           Call_InvokeAllocationObservers 4096 1000 1000 1000])"
  by (simp add: example_defs)

lemma example_slow_failure:
  "AllocateRaw example_config (AllocateRawSlow example_config no_refill) 1000 16 kRuntime
     (example_allocator 0 112 1000)
   = Inr (Failure, example_allocator 0 112 1000,
          [Call_AllocateFastAligned 1000 16 kRuntime, Call_AllocateRawSlow 1000 16 kRuntime,
           Call_RefillOrCollect 1000, Call_AllocateFastAligned 1000 16 kRuntime])"
  by (simp add: example_defs)

lemma example_dcheck: "\<not> (DEBUG_BOOL example_config \<and> enable_third_party_heap example_config)"
  by (simp add: example_config_def)

section \<open>The entry point\<close>

text \<open>
  C1. For every call \<^verbatim>\<open>AllocateRaw(size, alignment, origin)\<close> that passes the
  function's own \<^verbatim>\<open>DCHECK\<close>: the size is first rounded up to the allocation
  granularity (for a positive granularity, to the least multiple of it that is no less
  than the size); if no special alignment is requested (the alignment is
  \<^verbatim>\<open>kTaggedAligned\<close>, or alignment support is off) \<^verbatim>\<open>AllocateFastUnaligned\<close> is
  attempted with the rounded size, otherwise \<^verbatim>\<open>AllocateFastAligned\<close>; and
  \<^verbatim>\<open>AllocateRawSlow\<close> is called, with the rounded size, on the allocator the attempt
  left, if and only if the attempt returned \<^verbatim>\<open>Failure\<close>, and then its result is the
  result of the call. The slow path is any function \<open>slow\<close>.
\<close>

theorem AllocateRaw_dispatch:
  fixes cfg :: Config and size_in_bytes :: int and alignment :: AllocationAlignment
    and origin :: AllocationOrigin and s :: MainAllocator
    and slow :: "int \<Rightarrow> AllocationAlignment \<Rightarrow> AllocationOrigin \<Rightarrow> MainAllocator \<Rightarrow> AllocationResult outcome"
  defines "n \<equiv> ALIGN_TO_ALLOCATION_ALIGNMENT cfg size_in_bytes"
  defines "fu \<equiv> AllocateFastUnaligned cfg n origin s"
  defines "fa \<equiv> AllocateFastAligned cfg n None alignment origin s"
  assumes dcheck: "\<not> (DEBUG_BOOL cfg \<and> enable_third_party_heap cfg)"
  shows "(0 < kAllocationGranularity cfg \<longrightarrow>
            kAllocationGranularity cfg dvd n \<and> size_in_bytes \<le> n
            \<and> n < size_in_bytes + kAllocationGranularity cfg)
       \<and> (alignment = kTaggedAligned cfg \<or> \<not> USE_ALLOCATION_ALIGNMENT_BOOL cfg \<longrightarrow>
            (\<not> IsFailure (fst fu) \<longrightarrow>
               AllocateRaw cfg slow size_in_bytes alignment origin s
                 = Inr (fst fu, fst (snd fu), Call_AllocateFastUnaligned n origin # snd (snd fu)))
          \<and> (IsFailure (fst fu) \<longrightarrow>
               AllocateRaw cfg slow size_in_bytes alignment origin s
                 = Inr (fst (slow n alignment origin (fst (snd fu))),
                        fst (snd (slow n alignment origin (fst (snd fu)))),
                        Call_AllocateFastUnaligned n origin # snd (snd fu)
                          @ Call_AllocateRawSlow n alignment origin
                          # snd (snd (slow n alignment origin (fst (snd fu)))))))
       \<and> (\<not> (alignment = kTaggedAligned cfg \<or> \<not> USE_ALLOCATION_ALIGNMENT_BOOL cfg) \<longrightarrow>
            (\<not> IsFailure (fst (fst fa)) \<longrightarrow>
               AllocateRaw cfg slow size_in_bytes alignment origin s
                 = Inr (fst (fst fa), fst (snd fa),
                        Call_AllocateFastAligned n alignment origin # snd (snd fa)))
          \<and> (IsFailure (fst (fst fa)) \<longrightarrow>
               AllocateRaw cfg slow size_in_bytes alignment origin s
                 = Inr (fst (slow n alignment origin (fst (snd fa))),
                        fst (snd (slow n alignment origin (fst (snd fa)))),
                        Call_AllocateFastAligned n alignment origin # snd (snd fa)
                          @ Call_AllocateRawSlow n alignment origin
                          # snd (snd (slow n alignment origin (fst (snd fa)))))))
       \<and> \<not> list_ex is_slow_call (snd (snd fu))
       \<and> \<not> list_ex is_slow_call (snd (snd fa))"
proof -
  have rounding: "0 < kAllocationGranularity cfg \<longrightarrow>
            kAllocationGranularity cfg dvd n \<and> size_in_bytes \<le> n
            \<and> n < size_in_bytes + kAllocationGranularity cfg"
    unfolding n_def using ALIGN_TO_ALLOCATION_ALIGNMENT_rounds_up by blast
  have unaligned: "alignment = kTaggedAligned cfg \<or> \<not> USE_ALLOCATION_ALIGNMENT_BOOL cfg \<Longrightarrow>
       AllocateRaw cfg slow size_in_bytes alignment origin s
         = (if IsFailure (fst fu)
            then Inr (fst (slow n alignment origin (fst (snd fu))),
                        fst (snd (slow n alignment origin (fst (snd fu)))),
                        Call_AllocateFastUnaligned n origin # snd (snd fu)
                          @ Call_AllocateRawSlow n alignment origin
                          # snd (snd (slow n alignment origin (fst (snd fu)))))
            else Inr (fst fu, fst (snd fu), Call_AllocateFastUnaligned n origin # snd (snd fu)))"
    using dcheck unfolding AllocateRaw_def fu_def n_def
    by (auto simp: Let_def split: prod.splits)
  have aligned: "\<not> (alignment = kTaggedAligned cfg \<or> \<not> USE_ALLOCATION_ALIGNMENT_BOOL cfg) \<Longrightarrow>
       AllocateRaw cfg slow size_in_bytes alignment origin s
         = (if IsFailure (fst (fst fa))
            then Inr (fst (slow n alignment origin (fst (snd fa))),
                        fst (snd (slow n alignment origin (fst (snd fa)))),
                        Call_AllocateFastAligned n alignment origin # snd (snd fa)
                          @ Call_AllocateRawSlow n alignment origin
                          # snd (snd (slow n alignment origin (fst (snd fa)))))
            else Inr (fst (fst fa), fst (snd fa),
                        Call_AllocateFastAligned n alignment origin # snd (snd fa)))"
    using dcheck unfolding AllocateRaw_def fa_def n_def
    by (auto simp: Let_def split: prod.splits)
  have quiet: "\<not> list_ex is_slow_call (snd (snd fu))" "\<not> list_ex is_slow_call (snd (snd fa))"
    unfolding fu_def fa_def using fast_unaligned_no_calls fast_aligned_no_calls by blast+
  show ?thesis
    using rounding unaligned aligned quiet by simp
qed

theorem AllocateRaw_dispatch_witness:
  "\<not> (DEBUG_BOOL example_config \<and> enable_third_party_heap example_config)
   \<and> ALIGN_TO_ALLOCATION_ALIGNMENT example_config 20 = 24
   \<and> AllocateRaw example_config (AllocateRawSlow example_config fresh_page) 20 8 kRuntime
        (example_allocator 0 0 1000)
      = Inr (FromObject 0, example_allocator 0 24 1000,
             [Call_AllocateFastUnaligned 24 kRuntime, MsanAllocatedUninitializedMemory 0 24])
   \<and> AllocateRaw example_config (AllocateRawSlow example_config no_refill) 1000 16 kRuntime
        (example_allocator 0 112 1000)
      = Inr (Failure, example_allocator 0 112 1000,
             [Call_AllocateFastAligned 1000 16 kRuntime, Call_AllocateRawSlow 1000 16 kRuntime,
              Call_RefillOrCollect 1000, Call_AllocateFastAligned 1000 16 kRuntime])"
proof -
  have fast: "AllocateFastUnaligned example_config 24 kRuntime (example_allocator 0 0 1000)
      = (FromObject 0, example_allocator 0 24 1000, [MsanAllocatedUninitializedMemory 0 24])"
    by (simp add: example_config_def example_allocator_def AllocateFastUnaligned_def
        CanIncrementTop_def IncrementTop_def ALIGN_TO_ALLOCATION_ALIGNMENT_def Let_def)
  have fails: "AllocateFastAligned example_config 1000 None 16 kRuntime (example_allocator 0 112 1000)
      = ((Failure, None), example_allocator 0 112 1000, [])"
    by (simp add: example_config_def example_allocator_def AllocateFastAligned_def
        CanIncrementTop_def GetFillToAlign_def wrap_int_def Let_def)
  have slow: "AllocateRawSlow example_config no_refill 1000 16 kRuntime (example_allocator 0 112 1000)
      = (Failure, example_allocator 0 112 1000,
         [Call_RefillOrCollect 1000, Call_AllocateFastAligned 1000 16 kRuntime])"
    by (simp add: example_config_def example_allocator_def AllocateRawSlow_def no_refill_def
        AllocateFastAligned_def CanIncrementTop_def GetFillToAlign_def wrap_int_def Let_def)
  have r20: "ALIGN_TO_ALLOCATION_ALIGNMENT example_config 20 = 24"
    and r1000: "ALIGN_TO_ALLOCATION_ALIGNMENT example_config 1000 = 1000"
    by (simp_all add: example_config_def ALIGN_TO_ALLOCATION_ALIGNMENT_def)
  have tagged: "kTaggedAligned example_config = 8" "USE_ALLOCATION_ALIGNMENT_BOOL example_config"
    by (simp_all add: example_config_def)
  from AllocateRaw_dispatch [OF example_dcheck, where size_in_bytes = 20 and alignment = 8
      and slow = "AllocateRawSlow example_config fresh_page" and origin = kRuntime
      and s = "example_allocator 0 0 1000"]
  have a: "AllocateRaw example_config (AllocateRawSlow example_config fresh_page) 20 8 kRuntime
        (example_allocator 0 0 1000)
      = Inr (FromObject 0, example_allocator 0 24 1000,
             [Call_AllocateFastUnaligned 24 kRuntime, MsanAllocatedUninitializedMemory 0 24])"
    by (simp add: r20 fast tagged)
  from AllocateRaw_dispatch [OF example_dcheck, where size_in_bytes = 1000 and alignment = 16
      and slow = "AllocateRawSlow example_config no_refill" and origin = kRuntime
      and s = "example_allocator 0 112 1000"]
  have b: "AllocateRaw example_config (AllocateRawSlow example_config no_refill) 1000 16 kRuntime
        (example_allocator 0 112 1000)
      = Inr (Failure, example_allocator 0 112 1000,
             [Call_AllocateFastAligned 1000 16 kRuntime, Call_AllocateRawSlow 1000 16 kRuntime,
              Call_RefillOrCollect 1000, Call_AllocateFastAligned 1000 16 kRuntime])"
    by (simp add: r1000 fails slow tagged)
  from example_dcheck r20 a b show ?thesis by simp
qed

section \<open>The unaligned fast path\<close>

text \<open>
  C2. \<^verbatim>\<open>AllocateFastUnaligned(size, origin)\<close> returns \<^verbatim>\<open>Failure\<close> if and only if the
  size, rounded to the granularity, does not fit, that is \<open>top + size > limit\<close>;
  otherwise it returns the object at the value that \<open>top\<close> had before the call, and
  \<open>top\<close> is advanced by exactly that size.
\<close>

theorem AllocateFastUnaligned_fits:
  "(IsFailure (fst (AllocateFastUnaligned cfg size_in_bytes origin s))
      \<longleftrightarrow> top_of s + ALIGN_TO_ALLOCATION_ALIGNMENT cfg size_in_bytes > limit s)
   \<and> (\<not> IsFailure (fst (AllocateFastUnaligned cfg size_in_bytes origin s)) \<longrightarrow>
        fst (AllocateFastUnaligned cfg size_in_bytes origin s) = FromObject (top_of s)
        \<and> top_of (fst (snd (AllocateFastUnaligned cfg size_in_bytes origin s)))
            = top_of s + ALIGN_TO_ALLOCATION_ALIGNMENT cfg size_in_bytes)"
  by (simp add: AllocateFastUnaligned_def CanIncrementTop_def IncrementTop_def
      top_of_def limit_def Let_def)

theorem AllocateFastUnaligned_fits_witness:
  "\<not> IsFailure (fst (AllocateFastUnaligned example_config 20 kRuntime (example_allocator 0 0 1000)))
   \<and> fst (AllocateFastUnaligned example_config 20 kRuntime (example_allocator 0 0 1000)) = FromObject 0
   \<and> top_of (fst (snd (AllocateFastUnaligned example_config 20 kRuntime (example_allocator 0 0 1000)))) = 24"
  using AllocateFastUnaligned_fits [of example_config 20 kRuntime "example_allocator 0 0 1000"]
  by (simp add: example_config_def example_allocator_def ALIGN_TO_ALLOCATION_ALIGNMENT_def
      top_of_def limit_def)

section \<open>The aligned fast path\<close>



section \<open>Successive allocations\<close>

text \<open>
  C4, as amended. For any sequence of requests with positive sizes and positive
  alignments, each aligned request leaving room in an \<^verbatim>\<open>int\<close> for its filler
  (\<open>size + alignment - 1 \<le> 2147483647\<close>), that the one owning context sends to the fast
  paths of one allocation area (the granularity being positive, and no refill of the area
  in between), the addresses returned by the successful ones are strictly increasing and
  the objects do not overlap: for an allocation \<open>i\<close> and the next \<open>i+1\<close>,
  \<open>addr(i) + size(i) \<le> addr(i+1) - filler(i+1) \<le> addr(i+1)\<close>, where \<open>size(i)\<close> is the
  size of the object without its filler, that is \<open>aligned_size(i) - filler(i)\<close>.
\<close>

theorem fast_allocations_ordered:
  assumes "0 < kAllocationGranularity cfg" and "list_all valid_request reqs"
  shows "successively object_size_order (FastAllocations cfg reqs s)"
  using assms(2)
proof (induction reqs arbitrary: s)
  case Nil
  then show ?case by simp
next
  case (Cons r reqs)
  then have rest: "list_all valid_request reqs" by simp
  show ?case
  proof (cases r)
    case (RequestUnaligned n origin)
    with Cons.prems have n: "0 < n" by simp
    have up: "n \<le> ALIGN_TO_ALLOCATION_ALIGNMENT cfg n"
      using ALIGN_TO_ALLOCATION_ALIGNMENT_rounds_up [OF assms(1)] by blast
    let ?s' = "s\<lparr>allocation_info := (allocation_info s)
                      \<lparr>area_top := top_of s + ALIGN_TO_ALLOCATION_ALIGNMENT cfg n\<rparr>\<rparr>"
    let ?a = "\<lparr>object_address = top_of s,
              object_size = ALIGN_TO_ALLOCATION_ALIGNMENT cfg n,
              aligned_size = ALIGN_TO_ALLOCATION_ALIGNMENT cfg n\<rparr>"
    have next_ok: "object_size_order ?a b" if "b \<in> set (FastAllocations cfg reqs ?s')" for b
      using FastAllocations_above_top [OF assms(1) rest that] n up
      by (simp add: object_size_order_def top_of_def)
    have "successively object_size_order (?a # FastAllocations cfg reqs ?s')"
      using next_ok Cons.IH [OF rest] by (rule successively_ConsI)
    then show ?thesis
      using RequestUnaligned Cons.IH [OF rest]
      by (simp add: FastAllocations_unaligned_step del: FastAllocations.simps)
  next
    case (RequestAligned n al origin)
    with Cons.prems have n: "0 < n" and al: "0 < al" and room: "n + al - 1 \<le> 2147483647"
      by simp_all
    let ?f = "GetFillToAlign (top_of s) al"
    have f: "0 \<le> ?f" and f': "?f < al" using GetFillToAlign_range [OF al] by blast+
    have fits: "fits_int (n + ?f)" using n al room f f' by (rule fits_int_request)
    note step = FastAllocations_aligned_step [OF fits]
    let ?s' = "s\<lparr>heap := (if 0 < ?f
                         then (heap s)\<lparr>filler_objects := (top_of s, ?f) # filler_objects (heap s)\<rparr>
                         else heap s),
                    allocation_info := (allocation_info s)
                      \<lparr>area_top := top_of s + (n + ?f)\<rparr>\<rparr>"
    let ?a = "\<lparr>object_address = (if 0 < ?f then top_of s + ?f else top_of s),
              object_size = n, aligned_size = n + ?f\<rparr>"
    have next_ok: "object_size_order ?a b" if "b \<in> set (FastAllocations cfg reqs ?s')" for b
      using FastAllocations_above_top [OF assms(1) rest that] n f
      by (auto simp: object_size_order_def top_of_def)
    have "successively object_size_order (?a # FastAllocations cfg reqs ?s')"
      using next_ok Cons.IH [OF rest] by (rule successively_ConsI)
    then show ?thesis
      using RequestAligned Cons.IH [OF rest]
      by (simp add: step del: FastAllocations.simps)
  qed
qed

theorem fast_allocations_ordered_witness:
  "0 < kAllocationGranularity example_config
   \<and> list_all valid_request [RequestAligned 8 8 kRuntime, RequestUnaligned 8 kRuntime]
   \<and> FastAllocations example_config [RequestAligned 8 8 kRuntime, RequestUnaligned 8 kRuntime]
        (example_allocator 0 4 1000)
       = [\<lparr>object_address = 8, object_size = 8, aligned_size = 12\<rparr>,
          \<lparr>object_address = 16, object_size = 8, aligned_size = 8\<rparr>]
   \<and> successively object_size_order
        [\<lparr>object_address = 8, object_size = 8, aligned_size = 12\<rparr>,
         \<lparr>object_address = 16, object_size = 8, aligned_size = 8\<rparr>]"
proof -
  have g: "0 < kAllocationGranularity example_config"
    by (simp add: example_config_def)
  have v: "list_all valid_request [RequestAligned 8 8 kRuntime, RequestUnaligned 8 kRuntime]"
    by simp
  have run: "FastAllocations example_config [RequestAligned 8 8 kRuntime, RequestUnaligned 8 kRuntime]
        (example_allocator 0 4 1000)
       = [\<lparr>object_address = 8, object_size = 8, aligned_size = 12\<rparr>,
          \<lparr>object_address = 16, object_size = 8, aligned_size = 8\<rparr>]"
    by (simp add: example_config_def example_allocator_def AllocateFastAligned_def
        AllocateFastUnaligned_def CanIncrementTop_def IncrementTop_def GetFillToAlign_def wrap_int_def
        PrecedeWithFiller_def ALIGN_TO_ALLOCATION_ALIGNMENT_def Let_def)
  from fast_allocations_ordered [OF g v, of "example_allocator 0 4 1000"] g v run
  show ?thesis by simp
qed

text \<open>
  The inequality with \<open>aligned_size(i)\<close> counts the filler of allocation \<open>i\<close> twice,
  since the returned address already lies after the filler. From \<open>top = 4\<close>, a request
  of 8 bytes aligned to 8 returns address 8 with aligned size 12, and the next request of
  8 bytes returns 16, which is less than \<open>8 + 12\<close>.
\<close>

theorem aligned_size_order_counterexample:
  "FastAllocations example_config [RequestAligned 8 8 kRuntime, RequestUnaligned 8 kRuntime]
        (example_allocator 0 4 1000)
       = [\<lparr>object_address = 8, object_size = 8, aligned_size = 12\<rparr>,
          \<lparr>object_address = 16, object_size = 8, aligned_size = 8\<rparr>]
   \<and> \<not> successively aligned_size_order
        (FastAllocations example_config [RequestAligned 8 8 kRuntime, RequestUnaligned 8 kRuntime]
           (example_allocator 0 4 1000))"
  by (simp add: example_config_def example_allocator_def AllocateFastAligned_def
        AllocateFastUnaligned_def CanIncrementTop_def IncrementTop_def GetFillToAlign_def wrap_int_def
        PrecedeWithFiller_def ALIGN_TO_ALLOCATION_ALIGNMENT_def aligned_size_order_def Let_def)

section \<open>Publishing the top\<close>

text \<open>
  C5. \<^verbatim>\<open>MoveOriginalTopForward()\<close> takes the mutex of the linear area exclusively, requires
  that the current \<open>top\<close> lies within the published \<open>[original_top, original_limit]\<close>,
  stores the current \<open>top\<close> with release order as the new \<open>original_top\<close>, and gives
  the mutex back. When the requirement holds, the call returns, the published
  \<open>original_top\<close> read afterwards is the \<open>top\<close>, it exceeds neither the \<open>top\<close> nor
  \<open>original_limit\<close>, and it is no less than the one published before. In a debug build
  a call that violates the requirement stops at the \<^verbatim>\<open>DCHECK\<close> and stores nothing.
\<close>

theorem MoveOriginalTopForward_publishes_top:
  "(fst (original_top_acquire s) \<le> top_of s \<and> top_of s \<le> fst (original_limit_relaxed s) \<longrightarrow>
      (\<exists>s'. fst (MoveOriginalTopForward cfg s) = Inr s'
         \<and> fst (original_top_acquire s') = top_of s
         \<and> fst (original_top_acquire s') \<le> top_of s'
         \<and> fst (original_top_acquire s') \<le> fst (original_limit_relaxed s')
         \<and> fst (original_top_acquire s) \<le> fst (original_top_acquire s'))
      \<and> snd (MoveOriginalTopForward cfg s)
          = LockExclusive
            # (if DEBUG_BOOL cfg
               then [Load_original_top memory_order_acquire,
                     Load_original_limit memory_order_relaxed]
               else [])
            @ [Store_original_top (top_of s) memory_order_release, UnlockExclusive])
   \<and> (DEBUG_BOOL cfg
        \<and> \<not> (fst (original_top_acquire s) \<le> top_of s \<and> top_of s \<le> fst (original_limit_relaxed s)) \<longrightarrow>
      fst (MoveOriginalTopForward cfg s) = Inl DCHECK_failed
      \<and> hd (snd (MoveOriginalTopForward cfg s)) = LockExclusive
      \<and> Store_original_top (top_of s) memory_order_release \<notin> set (snd (MoveOriginalTopForward cfg s)))"
  by (auto simp: MoveOriginalTopForward_def original_top_acquire_def original_limit_relaxed_def
      get_original_top_acquire_def get_original_limit_relaxed_def set_original_top_release_def
      top_of_def Let_def)

theorem MoveOriginalTopForward_publishes_top_witness:
  "fst (MoveOriginalTopForward example_config (example_allocator 0 48 1000))
     = Inr \<lparr>heap = \<lparr>filler_objects = []\<rparr>,
            allocation_info = \<lparr>area_start = 0, area_top = 48, area_limit = 1000\<rparr>,
            linear_area_original_data = \<lparr>original_top = 48, original_limit = 1000\<rparr>\<rparr>
   \<and> snd (MoveOriginalTopForward example_config (example_allocator 0 48 1000))
     = [LockExclusive, Load_original_top memory_order_acquire,
        Load_original_limit memory_order_relaxed,
        Store_original_top 48 memory_order_release, UnlockExclusive]
   \<and> fst (MoveOriginalTopForward example_config (example_allocator 64 48 1000)) = Inl DCHECK_failed"
proof -
  have ok: "fst (original_top_acquire (example_allocator 0 48 1000)) \<le> top_of (example_allocator 0 48 1000)
      \<and> top_of (example_allocator 0 48 1000) \<le> fst (original_limit_relaxed (example_allocator 0 48 1000))"
    by (simp add: example_allocator_def original_top_acquire_def original_limit_relaxed_def
        get_original_top_acquire_def get_original_limit_relaxed_def top_of_def)
  have bad: "DEBUG_BOOL example_config
      \<and> \<not> (fst (original_top_acquire (example_allocator 64 48 1000)) \<le> top_of (example_allocator 64 48 1000)
           \<and> top_of (example_allocator 64 48 1000) \<le> fst (original_limit_relaxed (example_allocator 64 48 1000)))"
    by (simp add: example_config_def example_allocator_def original_top_acquire_def
        get_original_top_acquire_def top_of_def)
  from MoveOriginalTopForward_publishes_top [of "example_allocator 0 48 1000" example_config] ok
  obtain s' where s': "fst (MoveOriginalTopForward example_config (example_allocator 0 48 1000)) = Inr s'"
    and ev: "snd (MoveOriginalTopForward example_config (example_allocator 0 48 1000))
          = LockExclusive
            # (if DEBUG_BOOL example_config
               then [Load_original_top memory_order_acquire,
                     Load_original_limit memory_order_relaxed]
               else [])
            @ [Store_original_top (top_of (example_allocator 0 48 1000)) memory_order_release, UnlockExclusive]"
    by blast
  from MoveOriginalTopForward_publishes_top [of "example_allocator 64 48 1000" example_config] bad
  have fail: "fst (MoveOriginalTopForward example_config (example_allocator 64 48 1000)) = Inl DCHECK_failed"
    by blast
  have val: "fst (MoveOriginalTopForward example_config (example_allocator 0 48 1000))
     = Inr \<lparr>heap = \<lparr>filler_objects = []\<rparr>,
            allocation_info = \<lparr>area_start = 0, area_top = 48, area_limit = 1000\<rparr>,
            linear_area_original_data = \<lparr>original_top = 48, original_limit = 1000\<rparr>\<rparr>"
    by (simp add: MoveOriginalTopForward_def example_config_def example_allocator_def
        get_original_top_acquire_def get_original_limit_relaxed_def set_original_top_release_def
        top_of_def Let_def)
  from ev have ev': "snd (MoveOriginalTopForward example_config (example_allocator 0 48 1000))
     = [LockExclusive, Load_original_top memory_order_acquire,
        Load_original_limit memory_order_relaxed,
        Store_original_top 48 memory_order_release, UnlockExclusive]"
    by (simp add: example_config_def example_allocator_def top_of_def)
  from val ev' fail show ?thesis by simp
qed

section \<open>The observers\<close>

text \<open>
  C6, as amended. A successful allocation on the fast path makes no call of
  \<^verbatim>\<open>InvokeAllocationObservers\<close>, whatever the slow path is. With the slow path of the
  spec, the observers are called exactly once per successful allocation of the slow path
  and not at all otherwise; that call is the last event, after the retried fast path has
  advanced \<open>top\<close>, and it is given the address of the object returned.
\<close>

theorem observers_only_on_slow_path:
  fixes cfg :: Config and size_in_bytes :: int and alignment :: AllocationAlignment
    and origin :: AllocationOrigin and s :: MainAllocator
    and RefillOrCollect :: "int \<Rightarrow> MainAllocator \<Rightarrow> MainAllocator"
    and slow :: "int \<Rightarrow> AllocationAlignment \<Rightarrow> AllocationOrigin \<Rightarrow> MainAllocator \<Rightarrow> AllocationResult outcome"
  defines "n \<equiv> ALIGN_TO_ALLOCATION_ALIGNMENT cfg size_in_bytes"
  defines "first \<equiv>
     if alignment = kTaggedAligned cfg \<or> \<not> USE_ALLOCATION_ALIGNMENT_BOOL cfg
     then fst (AllocateFastUnaligned cfg n origin s)
     else fst (fst (AllocateFastAligned cfg n None alignment origin s))"
  shows "(AllocateRaw cfg slow size_in_bytes alignment origin s = Inr (result, s', ev)
            \<and> \<not> IsFailure first \<longrightarrow>
          result = first \<and> \<not> list_ex is_observer_call ev)
       \<and> (AllocateRaw cfg (AllocateRawSlow cfg RefillOrCollect) size_in_bytes alignment origin s
            = Inr (slow_result, slow_state, slow_events) \<longrightarrow>
          length (filter is_observer_call slow_events)
            = (if IsFailure first \<and> \<not> IsFailure slow_result then 1 else 0)
          \<and> (IsFailure first \<and> \<not> IsFailure slow_result \<longrightarrow>
               (\<exists>obj aligned. slow_result = FromObject obj
                  \<and> last slow_events = Call_InvokeAllocationObservers obj n aligned aligned
                  \<and> is_fast_call (slow_events ! 3)
                  \<and> 3 < length slow_events - 1)))"
proof -
  have fast: "AllocateRaw cfg slow size_in_bytes alignment origin s = Inr (result, s', ev)
            \<and> \<not> IsFailure first \<longrightarrow> result = first \<and> \<not> list_ex is_observer_call ev"
    unfolding first_def n_def
    by (auto simp: AllocateRaw_def AllocateFastUnaligned_cases AllocateFastAligned_cases Let_def
        split: if_splits prod.splits)
  have slow_u: "alignment = kTaggedAligned cfg \<or> \<not> USE_ALLOCATION_ALIGNMENT_BOOL cfg \<Longrightarrow>
       AllocateRaw cfg (AllocateRawSlow cfg RefillOrCollect) size_in_bytes alignment origin s
            = Inr (slow_result, slow_state, slow_events) \<Longrightarrow>
          length (filter is_observer_call slow_events)
            = (if IsFailure first \<and> \<not> IsFailure slow_result then 1 else 0)
          \<and> (IsFailure first \<and> \<not> IsFailure slow_result \<longrightarrow>
               (\<exists>obj aligned. slow_result = FromObject obj
                  \<and> last slow_events = Call_InvokeAllocationObservers obj n aligned aligned
                  \<and> is_fast_call (slow_events ! 3)
                  \<and> 3 < length slow_events - 1))"
    unfolding first_def n_def
    by (auto simp: AllocateRaw_def AllocateRawSlow_def AllocateFastUnaligned_cases Let_def top_of_def
        split: if_splits prod.splits AllocationResult.splits)
  have slow_a: "\<not> (alignment = kTaggedAligned cfg \<or> \<not> USE_ALLOCATION_ALIGNMENT_BOOL cfg) \<Longrightarrow>
       AllocateRaw cfg (AllocateRawSlow cfg RefillOrCollect) size_in_bytes alignment origin s
            = Inr (slow_result, slow_state, slow_events) \<Longrightarrow>
          length (filter is_observer_call slow_events)
            = (if IsFailure first \<and> \<not> IsFailure slow_result then 1 else 0)
          \<and> (IsFailure first \<and> \<not> IsFailure slow_result \<longrightarrow>
               (\<exists>obj aligned. slow_result = FromObject obj
                  \<and> last slow_events = Call_InvokeAllocationObservers obj n aligned aligned
                  \<and> is_fast_call (slow_events ! 3)
                  \<and> 3 < length slow_events - 1))"
    unfolding first_def n_def
    by (auto simp: AllocateRaw_def AllocateRawSlow_def AllocateFastAligned_cases Let_def
        split: if_splits prod.splits AllocationResult.splits)
  from fast slow_u slow_a show ?thesis by blast
qed

theorem observers_only_on_slow_path_witness:
  "AllocateRaw example_config (AllocateRawSlow example_config fresh_page) 20 8 kRuntime
     (example_allocator 0 0 1000)
   = Inr (FromObject 0, example_allocator 0 24 1000,
          [Call_AllocateFastUnaligned 24 kRuntime, MsanAllocatedUninitializedMemory 0 24])
   \<and> \<not> list_ex is_observer_call
        [Call_AllocateFastUnaligned 24 kRuntime, MsanAllocatedUninitializedMemory 0 24]
   \<and> AllocateRaw example_config (AllocateRawSlow example_config fresh_page) 1000 8 kRuntime
        (example_allocator 0 112 1000)
      = Inr (FromObject 4096, example_allocator 4096 5096 8192,
          [Call_AllocateFastUnaligned 1000 kRuntime, Call_AllocateRawSlow 1000 8 kRuntime,
           Call_RefillOrCollect 1000, Call_AllocateFastUnaligned 1000 kRuntime,
           MsanAllocatedUninitializedMemory 4096 1000,
           Call_InvokeAllocationObservers 4096 1000 1000 1000])
   \<and> length (filter is_observer_call
          [Call_AllocateFastUnaligned 1000 kRuntime, Call_AllocateRawSlow 1000 8 kRuntime,
           Call_RefillOrCollect 1000, Call_AllocateFastUnaligned 1000 kRuntime,
           MsanAllocatedUninitializedMemory 4096 1000,
           Call_InvokeAllocationObservers 4096 1000 1000 1000]) = 1"
proof -
  have r20: "ALIGN_TO_ALLOCATION_ALIGNMENT example_config 20 = 24"
    and r1000: "ALIGN_TO_ALLOCATION_ALIGNMENT example_config 1000 = 1000"
    by (simp_all add: example_config_def ALIGN_TO_ALLOCATION_ALIGNMENT_def)
  have tagged: "kTaggedAligned example_config = 8" "USE_ALLOCATION_ALIGNMENT_BOOL example_config"
    by (simp_all add: example_config_def)
  have ok: "\<not> IsFailure (fst (AllocateFastUnaligned example_config 24 kRuntime
                 (example_allocator 0 0 1000)))"
    by (simp add: example_config_def example_allocator_def AllocateFastUnaligned_def
        CanIncrementTop_def IncrementTop_def ALIGN_TO_ALLOCATION_ALIGNMENT_def Let_def)
  have first: "IsFailure (fst (AllocateFastUnaligned example_config 1000 kRuntime
                 (example_allocator 0 112 1000)))"
    by (simp add: example_config_def example_allocator_def AllocateFastUnaligned_def
        CanIncrementTop_def ALIGN_TO_ALLOCATION_ALIGNMENT_def Let_def)
  from observers_only_on_slow_path
    [where cfg = example_config and slow = "AllocateRawSlow example_config fresh_page"
       and size_in_bytes = 20 and alignment = 8 and origin = kRuntime
       and s = "example_allocator 0 0 1000" and result = "FromObject 0"
       and s' = "example_allocator 0 24 1000"
       and ev = "[Call_AllocateFastUnaligned 24 kRuntime, MsanAllocatedUninitializedMemory 0 24]"]
    example_fast_success ok
  have a: "\<not> list_ex is_observer_call
        [Call_AllocateFastUnaligned 24 kRuntime, MsanAllocatedUninitializedMemory 0 24]"
    by (simp add: r20 tagged)
  from observers_only_on_slow_path
    [where cfg = example_config and size_in_bytes = 1000 and alignment = 8
       and origin = kRuntime and s = "example_allocator 0 112 1000"
       and RefillOrCollect = fresh_page and slow_result = "FromObject 4096"
       and slow_state = "example_allocator 4096 5096 8192"
       and slow_events = "[Call_AllocateFastUnaligned 1000 kRuntime,
           Call_AllocateRawSlow 1000 8 kRuntime,
           Call_RefillOrCollect 1000, Call_AllocateFastUnaligned 1000 kRuntime,
           MsanAllocatedUninitializedMemory 4096 1000,
           Call_InvokeAllocationObservers 4096 1000 1000 1000]"]
    example_slow_success first
  have b: "length (filter is_observer_call
          [Call_AllocateFastUnaligned 1000 kRuntime, Call_AllocateRawSlow 1000 8 kRuntime,
           Call_RefillOrCollect 1000, Call_AllocateFastUnaligned 1000 kRuntime,
           MsanAllocatedUninitializedMemory 4096 1000,
           Call_InvokeAllocationObservers 4096 1000 1000 1000]) = 1"
    by (simp add: r1000 tagged)
  from example_fast_success example_slow_success a b show ?thesis by simp
qed

text \<open>
  The first request on a fresh region \<open>[0, 1000)\<close> is a successful allocation, served by
  the fast path, during which the observers are not called once but never.
\<close>

theorem observers_once_per_allocation_counterexample:
  "AllocateRaw example_config (AllocateRawSlow example_config fresh_page) 20 8 kRuntime
     (example_allocator 0 0 1000)
   = Inr (FromObject 0, example_allocator 0 24 1000,
          [Call_AllocateFastUnaligned 24 kRuntime, MsanAllocatedUninitializedMemory 0 24])
   \<and> \<not> length (filter is_observer_call
            [Call_AllocateFastUnaligned 24 kRuntime, MsanAllocatedUninitializedMemory 0 24]) = 1"
  by (simp add: example_defs)

section \<open>The slow path\<close>

text \<open>
  C8. With the slow path of the spec, \<^verbatim>\<open>AllocateRawSlow\<close> is called only after the fast
  path has failed, and at most once; it first delegates to the collaborator, then retries
  the fast path exactly once on the allocator the collaborator returned (so a request
  makes one fast attempt, or two when the first fails); the result of the request is then
  the result of that retry, and it is \<^verbatim>\<open>Failure\<close> exactly when both the first attempt
  and the retry fail.
\<close>

theorem AllocateRawSlow_single_retry:
  fixes cfg :: Config and size_in_bytes :: int and alignment :: AllocationAlignment
    and origin :: AllocationOrigin and s :: MainAllocator
    and RefillOrCollect :: "int \<Rightarrow> MainAllocator \<Rightarrow> MainAllocator"
  defines "n \<equiv> ALIGN_TO_ALLOCATION_ALIGNMENT cfg size_in_bytes"
  defines "unaligned \<equiv> alignment = kTaggedAligned cfg \<or> \<not> USE_ALLOCATION_ALIGNMENT_BOOL cfg"
  defines "first \<equiv>
     if unaligned then fst (AllocateFastUnaligned cfg n origin s)
     else fst (fst (AllocateFastAligned cfg n None alignment origin s))"
  defines "retry \<equiv>
     if unaligned then fst (AllocateFastUnaligned cfg n origin (RefillOrCollect n s))
     else fst (fst (AllocateFastAligned cfg n (Some 0) alignment origin (RefillOrCollect n s)))"
  assumes run: "AllocateRaw cfg (AllocateRawSlow cfg RefillOrCollect) size_in_bytes alignment origin s
                  = Inr (result, s', ev)"
  shows "(list_ex is_slow_call ev \<longleftrightarrow> IsFailure first)
       \<and> length (filter is_slow_call ev) \<le> 1
       \<and> length (filter is_refill_call ev) = length (filter is_slow_call ev)
       \<and> length (filter is_fast_call ev) = 1 + length (filter is_slow_call ev)
       \<and> (IsFailure first \<longrightarrow>
            is_fast_call (ev ! 0) \<and> ev ! 1 = Call_AllocateRawSlow n alignment origin
            \<and> ev ! 2 = Call_RefillOrCollect n \<and> is_fast_call (ev ! 3)
            \<and> result = retry)
       \<and> (IsFailure result \<longleftrightarrow> IsFailure first \<and> IsFailure retry)"
proof (cases unaligned)
  case True
  then have u: "\<not> (USE_ALLOCATION_ALIGNMENT_BOOL cfg \<and> alignment \<noteq> kTaggedAligned cfg)"
    by (auto simp: unaligned_def)
  show ?thesis
    using run True u
    unfolding first_def retry_def n_def[symmetric]
    by (auto simp: AllocateRaw_def AllocateRawSlow_def AllocateFastUnaligned_cases n_def[symmetric] Let_def
        split: if_splits prod.splits AllocationResult.splits)
next
  case False
  then have a: "USE_ALLOCATION_ALIGNMENT_BOOL cfg \<and> alignment \<noteq> kTaggedAligned cfg"
    by (auto simp: unaligned_def)
  show ?thesis
    using run False a
    unfolding first_def retry_def n_def[symmetric]
    by (auto simp: AllocateRaw_def AllocateRawSlow_def AllocateFastAligned_cases n_def[symmetric] Let_def
        split: if_splits prod.splits AllocationResult.splits option.splits)
qed

theorem AllocateRawSlow_single_retry_witness:
  "AllocateRaw example_config (AllocateRawSlow example_config no_refill) 1000 16 kRuntime
        (example_allocator 0 112 1000)
      = Inr (Failure, example_allocator 0 112 1000,
             [Call_AllocateFastAligned 1000 16 kRuntime, Call_AllocateRawSlow 1000 16 kRuntime,
              Call_RefillOrCollect 1000, Call_AllocateFastAligned 1000 16 kRuntime])
   \<and> length (filter is_fast_call
        [Call_AllocateFastAligned 1000 16 kRuntime, Call_AllocateRawSlow 1000 16 kRuntime,
         Call_RefillOrCollect 1000, Call_AllocateFastAligned 1000 16 kRuntime]) = 2
   \<and> AllocateRaw example_config (AllocateRawSlow example_config fresh_page) 1000 8 kRuntime
        (example_allocator 0 112 1000)
      = Inr (FromObject 4096, example_allocator 4096 5096 8192,
          [Call_AllocateFastUnaligned 1000 kRuntime, Call_AllocateRawSlow 1000 8 kRuntime,
           Call_RefillOrCollect 1000, Call_AllocateFastUnaligned 1000 kRuntime,
           MsanAllocatedUninitializedMemory 4096 1000,
           Call_InvokeAllocationObservers 4096 1000 1000 1000])
   \<and> fst (AllocateFastUnaligned example_config 1000 kRuntime
            (fresh_page 1000 (example_allocator 0 112 1000))) = FromObject 4096"
proof -
  have r1000: "ALIGN_TO_ALLOCATION_ALIGNMENT example_config 1000 = 1000"
    by (simp add: example_config_def ALIGN_TO_ALLOCATION_ALIGNMENT_def)
  have tagged: "kTaggedAligned example_config = 8" "USE_ALLOCATION_ALIGNMENT_BOOL example_config"
    by (simp_all add: example_config_def)
  have first: "IsFailure (fst (AllocateFastUnaligned example_config 1000 kRuntime
                 (example_allocator 0 112 1000)))"
    by (simp add: example_config_def example_allocator_def AllocateFastUnaligned_def
        CanIncrementTop_def ALIGN_TO_ALLOCATION_ALIGNMENT_def Let_def)
  from AllocateRawSlow_single_retry [OF example_slow_failure]
  have a: "length (filter is_fast_call
        [Call_AllocateFastAligned 1000 16 kRuntime, Call_AllocateRawSlow 1000 16 kRuntime,
         Call_RefillOrCollect 1000, Call_AllocateFastAligned 1000 16 kRuntime]) = 2"
    by simp
  from AllocateRawSlow_single_retry [OF example_slow_success] first
  have b: "fst (AllocateFastUnaligned example_config 1000 kRuntime
            (fresh_page 1000 (example_allocator 0 112 1000))) = FromObject 4096"
    by (simp add: r1000 tagged)
  from example_slow_failure example_slow_success a b show ?thesis by simp
qed

section \<open>A failed fast path\<close>

text \<open>
  C9. When either fast path returns \<^verbatim>\<open>Failure\<close>, it returns the allocator it was given:
  \<open>top\<close>, \<open>limit\<close>, \<open>start\<close>, the published bounds and the heap's filler objects
  are what they were, the cell behind \<^verbatim>\<open>result_aligned_size_in_bytes\<close> keeps its value,
  and no hook is called.
\<close>

theorem fast_path_failure_changes_nothing:
  "(IsFailure (fst (AllocateFastUnaligned cfg size_in_bytes origin s)) \<longrightarrow>
      AllocateFastUnaligned cfg size_in_bytes origin s = (Failure, s, []))
   \<and> (IsFailure (fst (fst (AllocateFastAligned cfg size_in_bytes out alignment origin s))) \<longrightarrow>
      AllocateFastAligned cfg size_in_bytes out alignment origin s = ((Failure, out), s, []))"
  by (simp add: AllocateFastUnaligned_def AllocateFastAligned_def Let_def split: prod.splits)

theorem fast_path_failure_changes_nothing_witness:
  "AllocateFastUnaligned example_config 1000 kRuntime (example_allocator 0 112 1000)
     = (Failure, example_allocator 0 112 1000, [])
   \<and> AllocateFastAligned example_config 1000 (Some 7) 16 kRuntime (example_allocator 0 112 1000)
     = ((Failure, Some 7), example_allocator 0 112 1000, [])"
  using fast_path_failure_changes_nothing
    [of example_config 1000 kRuntime "example_allocator 0 112 1000" "Some 7" 16]
  by (simp add: example_config_def example_allocator_def ALIGN_TO_ALLOCATION_ALIGNMENT_def
      AllocateFastUnaligned_def AllocateFastAligned_def CanIncrementTop_def GetFillToAlign_def wrap_int_def
      Let_def)

section \<open>The frame of publishing the top\<close>

text \<open>
  C10. A call of \<^verbatim>\<open>MoveOriginalTopForward()\<close> that returns has changed the published
  \<open>original_top\<close> and nothing else: the published \<open>original_limit\<close>, the \<open>start\<close>,
  \<open>top\<close> and \<open>limit\<close> of the allocation area and the heap are what they were, and no
  store to \<open>original_limit\<close> is made.
\<close>

theorem MoveOriginalTopForward_frame:
  assumes "fst (MoveOriginalTopForward cfg s) = Inr s'"
  shows "s' = s\<lparr>linear_area_original_data :=
                  (linear_area_original_data s)\<lparr>original_top := top_of s\<rparr>\<rparr>
       \<and> fst (original_limit_relaxed s') = fst (original_limit_relaxed s)
       \<and> start s' = start s \<and> top_of s' = top_of s \<and> limit s' = limit s
       \<and> allocation_info s' = allocation_info s
       \<and> heap s' = heap s
       \<and> Store_original_limit l mo \<notin> set (snd (MoveOriginalTopForward cfg s))"
  using assms
  by (auto simp: MoveOriginalTopForward_def original_limit_relaxed_def
      get_original_top_acquire_def get_original_limit_relaxed_def set_original_top_release_def
      top_of_def start_def limit_def Let_def split: if_splits)

theorem MoveOriginalTopForward_frame_witness:
  "fst (MoveOriginalTopForward example_config (example_allocator 0 48 1000))
     = Inr ((example_allocator 0 48 1000)\<lparr>linear_area_original_data :=
              \<lparr>original_top = 48, original_limit = 1000\<rparr>\<rparr>)
   \<and> fst (original_limit_relaxed ((example_allocator 0 48 1000)\<lparr>linear_area_original_data :=
              \<lparr>original_top = 48, original_limit = 1000\<rparr>\<rparr>)) = 1000
   \<and> top_of ((example_allocator 0 48 1000)\<lparr>linear_area_original_data :=
              \<lparr>original_top = 48, original_limit = 1000\<rparr>\<rparr>) = 48"
proof -
  have run: "fst (MoveOriginalTopForward example_config (example_allocator 0 48 1000))
     = Inr ((example_allocator 0 48 1000)\<lparr>linear_area_original_data :=
              \<lparr>original_top = 48, original_limit = 1000\<rparr>\<rparr>)"
    by (simp add: MoveOriginalTopForward_def example_config_def example_allocator_def
        get_original_top_acquire_def get_original_limit_relaxed_def set_original_top_release_def
        top_of_def Let_def)
  from MoveOriginalTopForward_frame [OF run] run show ?thesis
    by (simp add: example_allocator_def original_limit_relaxed_def
        get_original_limit_relaxed_def top_of_def)
qed

end
